theory Spec2Isabelle
  imports Main "HOL-Library.Sublist"
begin

section \<open>JavaScript values and strings\<close>

text \<open>
  A JavaScript string is modelled as a \<^typ>\<open>string\<close> holding its UTF-8 bytes: the ASCII
  characters the program tests for (the magic prefix, the line feed, the slash) are
  single bytes that never occur inside a longer sequence, so \<open>startsWith\<close>,
  \<open>endsWith\<close>, \<open>slice\<close> past an ASCII prefix, \<open>split\<close> at a line feed and
  concatenation are the list operations. A JSON value (\<open>unknown\<close> in the TypeScript)
  is a \<^theory_text>\<open>datatype\<close>; \<open>undefined\<close> is \<open>None\<close> of \<open>json option\<close>. Numbers
  are modelled by integers (ids, change numbers, line numbers); an object is the
  association list of its own properties, each key once.
\<close>

datatype json =
    JNull
  | JBool bool
  | JNum int
  | JStr string
  | JArr "json list"
  | JObj "(string \<times> json) list"

text \<open>Property access \<open>v.k\<close> for the property names this program reads, none of which is
  a built-in property of a string, number, boolean or array.\<close>

fun getprop :: "json \<Rightarrow> string \<Rightarrow> json option" where
  "getprop (JObj kvs) k = map_of kvs k"
| "getprop _ k = None"

definition startsWith :: "string \<Rightarrow> string \<Rightarrow> bool" where
  "startsWith s p = (take (length p) s = p)"

definition endsWith :: "string \<Rightarrow> string \<Rightarrow> bool" where
  "endsWith s p = (length p \<le> length s \<and> drop (length s - length p) s = p)"

text \<open>
  \<open>String.prototype.trim\<close> removes the code points of WhiteSpace and LineTerminator
  from both ends: U+0009 to U+000D, U+0020, U+00A0, U+1680, U+2000 to U+200A, U+2028,
  U+2029, U+202F, U+205F, U+3000 and U+FEFF, listed here in UTF-8.
\<close>

definition white_space :: "string list" where
  "white_space =
    [[CHR 0x09], [CHR 0x0A], [CHR 0x0B], [CHR 0x0C], [CHR 0x0D], [CHR 0x20],
     [CHR 0xC2, CHR 0xA0],
     [CHR 0xE1, CHR 0x9A, CHR 0x80],
     [CHR 0xE2, CHR 0x80, CHR 0x80], [CHR 0xE2, CHR 0x80, CHR 0x81],
     [CHR 0xE2, CHR 0x80, CHR 0x82], [CHR 0xE2, CHR 0x80, CHR 0x83],
     [CHR 0xE2, CHR 0x80, CHR 0x84], [CHR 0xE2, CHR 0x80, CHR 0x85],
     [CHR 0xE2, CHR 0x80, CHR 0x86], [CHR 0xE2, CHR 0x80, CHR 0x87],
     [CHR 0xE2, CHR 0x80, CHR 0x88], [CHR 0xE2, CHR 0x80, CHR 0x89],
     [CHR 0xE2, CHR 0x80, CHR 0x8A],
     [CHR 0xE2, CHR 0x80, CHR 0xA8], [CHR 0xE2, CHR 0x80, CHR 0xA9],
     [CHR 0xE2, CHR 0x80, CHR 0xAF],
     [CHR 0xE2, CHR 0x81, CHR 0x9F],
     [CHR 0xE3, CHR 0x80, CHR 0x80],
     [CHR 0xEF, CHR 0xBB, CHR 0xBF]]"

definition white_prefix :: "string \<Rightarrow> string option" where
  "white_prefix s = find (\<lambda>w. prefix w s) white_space"

definition white_suffix :: "string \<Rightarrow> string option" where
  "white_suffix s = find (\<lambda>w. suffix w s) white_space"

lemma white_space_nonempty: "w \<in> set white_space \<Longrightarrow> w \<noteq> []"
  by (auto simp: white_space_def)

lemma white_prefix_Some: "white_prefix s = Some w \<Longrightarrow> w \<noteq> [] \<and> prefix w s"
  unfolding white_prefix_def find_Some_iff
  by (metis nth_mem white_space_nonempty)

lemma white_suffix_Some: "white_suffix s = Some w \<Longrightarrow> w \<noteq> [] \<and> suffix w s"
  unfolding white_suffix_def find_Some_iff
  by (metis nth_mem white_space_nonempty)

function trimStart :: "string \<Rightarrow> string" where
  "trimStart s =
     (case white_prefix s of
        None \<Rightarrow> s
      | Some w \<Rightarrow> trimStart (drop (length w) s))"
  by pat_completeness auto
termination
proof (relation "measure length")
  fix s w
  assume "white_prefix s = Some w"
  then have "w \<noteq> []" and "prefix w s"
    by (simp_all add: white_prefix_Some)
  then have "length s - length w < length s"
    by (cases w; cases s) (auto dest: prefix_length_le)
  then show "(drop (length w) s, s) \<in> measure length"
    by simp
qed simp

function trimEnd :: "string \<Rightarrow> string" where
  "trimEnd s =
     (case white_suffix s of
        None \<Rightarrow> s
      | Some w \<Rightarrow> trimEnd (take (length s - length w) s))"
  by pat_completeness auto
termination
proof (relation "measure length")
  fix s w
  assume "white_suffix s = Some w"
  then have "w \<noteq> []" and "suffix w s"
    by (simp_all add: white_suffix_Some)
  then have "length s - length w < length s"
    by (cases w; cases s) (auto dest: suffix_length_le)
  then show "(take (length s - length w) s, s) \<in> measure length"
    by simp
qed simp

declare trimStart.simps [simp del] trimEnd.simps [simp del]

definition trim :: "string \<Rightarrow> string" where
  "trim s = trimEnd (trimStart s)"

text \<open>Exceptions are values: the class of the thrown error and its \<open>message\<close>.\<close>

datatype exn =
    Error string
  | TypeError string
  | SyntaxError string
  | HTTPError string

fun message :: "exn \<Rightarrow> string" where
  "message (Error m) = m"
| "message (TypeError m) = m"
| "message (SyntaxError m) = m"
| "message (HTTPError m) = m"

text \<open>Decimal digits of a natural number, most significant first.\<close>

definition digit_char :: "nat \<Rightarrow> char" where
  "digit_char n = ''0123456789'' ! n"

function digits :: "nat \<Rightarrow> string" where
  "digits n =
     (if n < 10 then [digit_char n]
      else digits (n div 10) @ [digit_char (n mod 10)])"
  by pat_completeness auto
termination
  by (relation "measure id") auto

declare digits.simps [simp del]

text \<open>
  \<open>String(v)\<close>, which a template literal applies too. An array joins its elements
  with commas, \<open>null\<close> elements giving the empty string. An object answers
  \<open>[object Object]\<close> through the inherited \<open>toString\<close>; an own property of that name
  (never callable in a parsed JSON value) shadows it, and the conversion throws a
  TypeError, worded as V8 does.
\<close>

fun String_json :: "json \<Rightarrow> exn + string"
  and join_json :: "json list \<Rightarrow> exn + string" where
  "String_json JNull = Inr ''null''"
| "String_json (JBool b) = Inr (if b then ''true'' else ''false'')"
| "String_json (JNum n) =
     Inr (if n < 0 then CHR ''-'' # digits (nat (- n)) else digits (nat n))"
| "String_json (JStr s) = Inr s"
| "String_json (JArr xs) = join_json xs"
| "String_json (JObj kvs) =
     (if map_of kvs ''toString'' = None then Inr ''[object Object]''
      else Inl (TypeError ''Cannot convert object to primitive value''))"
| "join_json [] = Inr []"
| "join_json (x # xs) =
     (case (if x = JNull then Inr [] else String_json x) of
        Inl e \<Rightarrow> Inl e
      | Inr s \<Rightarrow>
          (if xs = [] then Inr s
           else (case join_json xs of
                   Inl e \<Rightarrow> Inl e
                 | Inr r \<Rightarrow> Inr (s @ '','' @ r))))"

definition String_js :: "json option \<Rightarrow> exn + string" where
  "String_js v = (case v of None \<Rightarrow> Inr ''undefined'' | Some j \<Rightarrow> String_json j)"

section \<open>The runtime\<close>

text \<open>
  What the program calls and does not define is a parameter of the model: the HTTP
  client \<open>got\<close> (the request answered by a body, or by a thrown error), the value
  grammar of \<open>JSON.parse\<close> and the message of its SyntaxError, \<open>JSON.stringify\<close>
  with two spaces of indentation, and the base64 decoder of \<open>Buffer\<close>. The request
  keeps the value handed to \<open>JSON.stringify\<close> as its body, and the cookie string of
  the jar handed to \<open>got\<close>.
\<close>

record request =
  req_method :: string
  req_url :: string
  req_headers :: "(string \<times> string) list"
  req_body :: "json option"
  req_cookieJar :: "string option"
  req_rejectUnauthorized :: bool

record runtime =
  got :: "request \<Rightarrow> exn + string"
  json_value :: "string \<Rightarrow> json option"
  syntax_message :: "string \<Rightarrow> string"
  stringify :: "json \<Rightarrow> string"
  base64_decode :: "string \<Rightarrow> string"

text \<open>
  \<open>JSON.parse\<close>: the text, with the JSON white space (tab, line feed, carriage return,
  space) skipped at both ends, is one JSON value. Such a text begins with an opening
  brace or bracket, a quote, a minus sign, a digit or the first letter of \<open>true\<close>,
  \<open>false\<close>, \<open>null\<close>, and ends with a closing brace or bracket, a quote, a digit or
  the last letter of those words; what value it is, the runtime's grammar says.
\<close>

definition json_ws :: "char \<Rightarrow> bool" where
  "json_ws c = (c = CHR 0x09 \<or> c = CHR 0x0A \<or> c = CHR 0x0D \<or> c = CHR 0x20)"

definition value_first :: "char \<Rightarrow> bool" where
  "value_first c = (c \<in> set (CHR 0x22 # ''{[-0123456789tfn''))"

definition value_last :: "char \<Rightarrow> bool" where
  "value_last c = (c \<in> set (CHR 0x22 # ''}]0123456789el''))"

definition json_trim :: "string \<Rightarrow> string" where
  "json_trim s = rev (dropWhile json_ws (rev (dropWhile json_ws s)))"

definition JSON_parse :: "runtime \<Rightarrow> string \<Rightarrow> exn + json" where
  "JSON_parse rt s =
     (let t = json_trim s in
      if t = [] \<or> \<not> value_first (hd t) \<or> \<not> value_last (last t)
      then Inl (SyntaxError (syntax_message rt s))
      else (case json_value rt t of
              None \<Rightarrow> Inl (SyntaxError (syntax_message rt s))
            | Some v \<Rightarrow> Inr v))"

text \<open>\<open>Buffer.from(s).toString('base64')\<close> on the UTF-8 bytes of \<open>s\<close>.\<close>

definition b64_char :: "nat \<Rightarrow> char" where
  "b64_char n =
     (''ABCDEFGHIJKLMNOPQRSTUVWXYZabcdefghijklmnopqrstuvwxyz0123456789+/'') ! n"

fun b64 :: "nat list \<Rightarrow> string" where
  "b64 [] = []"
| "b64 [a] = [b64_char (a div 4), b64_char ((a mod 4) * 16), CHR ''='', CHR ''='']"
| "b64 [a, b] =
     [b64_char (a div 4), b64_char ((a mod 4) * 16 + b div 16),
      b64_char ((b mod 16) * 4), CHR ''='']"
| "b64 (a # b # c # r) =
     [b64_char (a div 4), b64_char ((a mod 4) * 16 + b div 16),
      b64_char ((b mod 16) * 4 + c div 64), b64_char (c mod 64)] @ b64 r"

definition base64 :: "string \<Rightarrow> string" where
  "base64 s = b64 (map of_char s)"

text \<open>\<open>encodeURIComponent\<close>: every byte but the unreserved ones is percent-encoded.\<close>

definition uri_unreserved :: "char \<Rightarrow> bool" where
  "uri_unreserved c =
     (c \<in> set (''ABCDEFGHIJKLMNOPQRSTUVWXYZabcdefghijklmnopqrstuvwxyz0123456789''
                @ CHR 0x27 # ''-_.!~*()''))"

definition hex_char :: "nat \<Rightarrow> char" where
  "hex_char n = ''0123456789ABCDEF'' ! n"

definition encodeURIComponent :: "string \<Rightarrow> string" where
  "encodeURIComponent s =
     concat (map (\<lambda>c. if uri_unreserved c then [c]
                       else [CHR ''%'', hex_char (of_char c div 16),
                             hex_char (of_char c mod 16)]) s)"

section \<open>The REST gateway\<close>

text \<open>The environment of the process, and the five constants read from it.\<close>

type_synonym process_env = "string \<Rightarrow> string option"

definition GERRIT_URL :: "process_env \<Rightarrow> string" where
  "GERRIT_URL env = (case env ''GERRIT_URL'' of None \<Rightarrow> [] | Some v \<Rightarrow> v)"

definition GERRIT_USERNAME :: "process_env \<Rightarrow> string" where
  "GERRIT_USERNAME env = (case env ''GERRIT_USERNAME'' of None \<Rightarrow> [] | Some v \<Rightarrow> v)"

definition GERRIT_PASSWORD :: "process_env \<Rightarrow> string" where
  "GERRIT_PASSWORD env = (case env ''GERRIT_PASSWORD'' of None \<Rightarrow> [] | Some v \<Rightarrow> v)"

definition GERRIT_AUTH_COOKIE :: "process_env \<Rightarrow> string" where
  "GERRIT_AUTH_COOKIE env =
     (case env ''GERRIT_AUTH_COOKIE'' of None \<Rightarrow> [] | Some v \<Rightarrow> v)"

definition GERRIT_AUTH_PREFIX :: "process_env \<Rightarrow> string" where
  "GERRIT_AUTH_PREFIX env =
     (case env ''GERRIT_AUTH_PREFIX'' of None \<Rightarrow> ''a/'' | Some v \<Rightarrow> v)"

definition MAGIC_PREFIX :: string where
  "MAGIC_PREFIX = [CHR 0x29, CHR 0x5D, CHR 0x7D, CHR 0x27]"

text \<open>A string is truthy when it is not empty.\<close>

definition gerritHeaders :: "process_env \<Rightarrow> bool \<Rightarrow> (string \<times> string) list" where
  "gerritHeaders env withContent =
     (if withContent then [(''Content-Type'', ''application/json'')] else [])
     @ (if GERRIT_USERNAME env \<noteq> [] \<and> GERRIT_PASSWORD env \<noteq> []
        then [(''Authorization'',
               ''Basic '' @ base64 (GERRIT_USERNAME env @ '':'' @ GERRIT_PASSWORD env))]
        else [])"

definition gerritUrl :: "process_env \<Rightarrow> string \<Rightarrow> string" where
  "gerritUrl env path =
     (let base = (if endsWith (GERRIT_URL env) ''/'' then GERRIT_URL env
                  else GERRIT_URL env @ ''/'')
      in base @ GERRIT_AUTH_PREFIX env @ path)"

definition stripMagic :: "string \<Rightarrow> string" where
  "stripMagic body =
     (if startsWith body MAGIC_PREFIX
      then trim (drop (length MAGIC_PREFIX) body)
      else trim body)"

definition buildCookieJar :: "process_env \<Rightarrow> string option" where
  "buildCookieJar env =
     (if GERRIT_AUTH_COOKIE env = [] then None
      else Some (''GerritAccount='' @ GERRIT_AUTH_COOKIE env))"

text \<open>
  An asynchronous operation returns the requests it handed to \<open>got\<close>, in order, and
  its outcome: the value the promise resolves to, or the error it rejects with.
\<close>

type_synonym 'a io = "request list \<times> (exn + 'a)"

definition lift :: "exn + 'a \<Rightarrow> 'a io" where
  "lift r = ([], r)"

definition bind_io :: "'a io \<Rightarrow> ('a \<Rightarrow> 'b io) \<Rightarrow> 'b io" where
  "bind_io m f =
     (case m of
        (t, Inl e) \<Rightarrow> (t, Inl e)
      | (t, Inr x) \<Rightarrow> (case f x of (t', r) \<Rightarrow> (t @ t', r)))"

definition gerritGet_request :: "process_env \<Rightarrow> string \<Rightarrow> request" where
  "gerritGet_request env path =
     \<lparr>req_method = ''GET'', req_url = gerritUrl env path,
      req_headers = gerritHeaders env False, req_body = None,
      req_cookieJar = buildCookieJar env, req_rejectUnauthorized = False\<rparr>"

definition gerritPut_request :: "process_env \<Rightarrow> string \<Rightarrow> json \<Rightarrow> request" where
  "gerritPut_request env path body =
     \<lparr>req_method = ''PUT'', req_url = gerritUrl env path,
      req_headers = gerritHeaders env True, req_body = Some body,
      req_cookieJar = buildCookieJar env, req_rejectUnauthorized = False\<rparr>"

definition gerritGet :: "runtime \<Rightarrow> process_env \<Rightarrow> string \<Rightarrow> json io" where
  "gerritGet rt env path =
     (let req = gerritGet_request env path in
      case got rt req of
        Inl e \<Rightarrow> ([req], Inl e)
      | Inr body \<Rightarrow> ([req], JSON_parse rt (stripMagic body)))"

definition gerritGetRaw :: "runtime \<Rightarrow> process_env \<Rightarrow> string \<Rightarrow> string io" where
  "gerritGetRaw rt env path =
     (let req = gerritGet_request env path in ([req], got rt req))"

definition gerritPut :: "runtime \<Rightarrow> process_env \<Rightarrow> string \<Rightarrow> json \<Rightarrow> json io" where
  "gerritPut rt env path body =
     (let req = gerritPut_request env path body in
      case got rt req of
        Inl e \<Rightarrow> ([req], Inl e)
      | Inr resp \<Rightarrow> ([req], JSON_parse rt (stripMagic resp)))"

section \<open>The tool registry\<close>

record ToolDef =
  name :: string
  description :: string
  inputSchema :: json

definition string_prop :: "string \<Rightarrow> json" where
  "string_prop d = JObj [(''type'', JStr ''string''), (''description'', JStr d)]"

definition schema :: "(string \<times> json) list \<Rightarrow> string list \<Rightarrow> json" where
  "schema props req =
     JObj [(''type'', JStr ''object''), (''properties'', JObj props),
           (''required'', JArr (map JStr req))]"

definition changeNumber_prop :: "string \<times> json" where
  "changeNumber_prop = (''changeNumber'', string_prop ''Gerrit change number'')"

definition TOOLS :: "ToolDef list" where
  "TOOLS =
    [\<lparr>name = ''gerrit_get_change'',
      description = ''Get change metadata including subject, owner, ''
        @ ''branch, status, commit message, insertions, '' @ ''and deletions.'',
      inputSchema = schema [changeNumber_prop] [''changeNumber'']\<rparr>,
     \<lparr>name = ''gerrit_get_changed_files'',
      description = ''List all files changed in the current patchset ''
        @ ''with lines inserted/deleted.'',
      inputSchema = schema [changeNumber_prop] [''changeNumber'']\<rparr>,
     \<lparr>name = ''gerrit_get_file_content'',
      description = ''Get the full content of a file in the current ''
        @ ''patchset revision.'',
      inputSchema = schema
        [changeNumber_prop, (''filePath'', string_prop ''Path to the file'')]
        [''changeNumber'', ''filePath'']\<rparr>,
     \<lparr>name = ''gerrit_get_comments'',
      description = ''Get all published comments on a change, '' @ ''grouped by file.'',
      inputSchema = schema [changeNumber_prop] [''changeNumber'']\<rparr>,
     \<lparr>name = ''gerrit_get_draft_comments'',
      description = ''Get all existing draft comments on a change.'',
      inputSchema = schema [changeNumber_prop] [''changeNumber'']\<rparr>,
     \<lparr>name = ''gerrit_post_draft_comment'',
      description = ''Post a new draft comment on a specific file ''
        @ ''and line. Use /PATCHSET_LEVEL as filePath ''
        @ ''for patchset-level comments.'',
      inputSchema = schema
        [changeNumber_prop,
         (''filePath'', string_prop ''File path or /PATCHSET_LEVEL''),
         (''line'', JObj [(''type'', JStr ''number''),
            (''description'', JStr ''Line number (omit for file-level)'')]),
         (''message'', string_prop ''Comment text''),
         (''unresolved'', JObj [(''type'', JStr ''boolean''),
            (''description'', JStr ''Mark as unresolved'')])]
        [''changeNumber'', ''filePath'', ''message'']\<rparr>,
     \<lparr>name = ''gerrit_reply_to_comment'',
      description = ''Reply to an existing comment thread. Uses ''
        @ ''in_reply_to to chain comments.'',
      inputSchema = schema
        [changeNumber_prop,
         (''filePath'', string_prop ''File path of the thread''),
         (''message'', string_prop ''Reply text''),
         (''inReplyTo'', string_prop ''ID of comment to reply to'')]
        [''changeNumber'', ''filePath'', ''message'', ''inReplyTo'']\<rparr>]"


section \<open>The tool handlers\<close>

definition handleGetChange :: "runtime \<Rightarrow> process_env \<Rightarrow> json \<Rightarrow> string io" where
  "handleGetChange rt env args =
     bind_io (lift (String_js (getprop args ''changeNumber''))) (\<lambda>cn.
     bind_io (gerritGet rt env
       (''changes/'' @ cn @ ''/detail/'' @ ''?o=CURRENT_REVISION&o=CURRENT_COMMIT''
        @ ''&o=DETAILED_ACCOUNTS'')) (\<lambda>data.
     lift (Inr (stringify rt data))))"

definition handleGetChangedFiles :: "runtime \<Rightarrow> process_env \<Rightarrow> json \<Rightarrow> string io" where
  "handleGetChangedFiles rt env args =
     bind_io (lift (String_js (getprop args ''changeNumber''))) (\<lambda>cn.
     bind_io (gerritGet rt env (''changes/'' @ cn @ ''/revisions/current/files''))
       (\<lambda>data.
     lift (Inr (stringify rt data))))"

definition handleGetFileContent :: "runtime \<Rightarrow> process_env \<Rightarrow> json \<Rightarrow> string io" where
  "handleGetFileContent rt env args =
     bind_io (lift (String_js (getprop args ''changeNumber''))) (\<lambda>cn.
     bind_io (lift (String_js (getprop args ''filePath''))) (\<lambda>fp.
     bind_io (gerritGetRaw rt env
       (''changes/'' @ cn @ ''/revisions/current/'' @ ''files/''
        @ encodeURIComponent fp @ ''/content'')) (\<lambda>raw.
     lift (Inr (base64_decode rt raw)))))"

definition handleGetComments :: "runtime \<Rightarrow> process_env \<Rightarrow> json \<Rightarrow> string io" where
  "handleGetComments rt env args =
     bind_io (lift (String_js (getprop args ''changeNumber''))) (\<lambda>cn.
     bind_io (gerritGet rt env (''changes/'' @ cn @ ''/comments/'')) (\<lambda>data.
     lift (Inr (stringify rt data))))"

definition handleGetDraftComments :: "runtime \<Rightarrow> process_env \<Rightarrow> json \<Rightarrow> string io" where
  "handleGetDraftComments rt env args =
     bind_io (lift (String_js (getprop args ''changeNumber''))) (\<lambda>cn.
     bind_io (gerritGet rt env (''changes/'' @ cn @ ''/drafts/'')) (\<lambda>data.
     lift (Inr (stringify rt data))))"

text \<open>The body of a new draft: \<open>line\<close> is set only when the argument is a number.\<close>

definition postDraft_body :: "json \<Rightarrow> string \<Rightarrow> string \<Rightarrow> json" where
  "postDraft_body args path msg =
     JObj ([(''path'', JStr path), (''message'', JStr msg),
            (''unresolved'', JBool (getprop args ''unresolved'' \<noteq> Some (JBool False)))]
           @ (case getprop args ''line'' of
                Some (JNum n) \<Rightarrow> [(''line'', JNum n)]
              | _ \<Rightarrow> []))"

definition handlePostDraft :: "runtime \<Rightarrow> process_env \<Rightarrow> json \<Rightarrow> string io" where
  "handlePostDraft rt env args =
     bind_io (lift (String_js (getprop args ''changeNumber''))) (\<lambda>cn.
     bind_io (lift (String_js (getprop args ''filePath''))) (\<lambda>path.
     bind_io (lift (String_js (getprop args ''message''))) (\<lambda>msg.
     bind_io (gerritPut rt env (''changes/'' @ cn @ ''/revisions/current/drafts'')
                (postDraft_body args path msg)) (\<lambda>data.
     lift (Inr (stringify rt data))))))"

definition reply_body :: "string \<Rightarrow> string \<Rightarrow> string \<Rightarrow> json" where
  "reply_body path msg irt =
     JObj [(''path'', JStr path), (''message'', JStr msg),
           (''in_reply_to'', JStr irt), (''unresolved'', JBool False)]"

definition handleReplyToComment :: "runtime \<Rightarrow> process_env \<Rightarrow> json \<Rightarrow> string io" where
  "handleReplyToComment rt env args =
     bind_io (lift (String_js (getprop args ''changeNumber''))) (\<lambda>cn.
     bind_io (lift (String_js (getprop args ''filePath''))) (\<lambda>path.
     bind_io (lift (String_js (getprop args ''message''))) (\<lambda>msg.
     bind_io (lift (String_js (getprop args ''inReplyTo''))) (\<lambda>irt.
     bind_io (gerritPut rt env (''changes/'' @ cn @ ''/revisions/current/drafts'')
                (reply_body path msg irt)) (\<lambda>data.
     lift (Inr (stringify rt data)))))))"

text \<open>The \<open>switch\<close> compares with \<open>===\<close>: only a string selects a handler.\<close>

definition handleTool :: "runtime \<Rightarrow> process_env \<Rightarrow> json option \<Rightarrow> json \<Rightarrow> string io" where
  "handleTool rt env nm args =
     (if nm = Some (JStr ''gerrit_get_change'') then handleGetChange rt env args
      else if nm = Some (JStr ''gerrit_get_changed_files'')
        then handleGetChangedFiles rt env args
      else if nm = Some (JStr ''gerrit_get_file_content'')
        then handleGetFileContent rt env args
      else if nm = Some (JStr ''gerrit_get_comments'') then handleGetComments rt env args
      else if nm = Some (JStr ''gerrit_get_draft_comments'')
        then handleGetDraftComments rt env args
      else if nm = Some (JStr ''gerrit_post_draft_comment'')
        then handlePostDraft rt env args
      else if nm = Some (JStr ''gerrit_reply_to_comment'')
        then handleReplyToComment rt env args
      else bind_io (lift (String_js nm)) (\<lambda>n.
           lift (Inl (Error (''Unknown tool: '' @ n)))))"

section \<open>The JSON-RPC server\<close>

text \<open>The \<open>id\<close> of a request is a number, a string or \<open>null\<close>, or is absent.\<close>

datatype rpc_id = IdNum int | IdStr string | IdNull

record JsonRpcRequest =
  msg_jsonrpc :: string
  msg_id :: "rpc_id option"
  msg_method :: string
  msg_params :: "json option"

record rpc_error =
  code :: int
  error_message :: string

record JsonRpcResponse =
  resp_jsonrpc :: string
  resp_id :: rpc_id
  resp_result :: "json option"
  resp_error :: "rpc_error option"

definition makeResult :: "rpc_id \<Rightarrow> json \<Rightarrow> JsonRpcResponse" where
  "makeResult i r =
     \<lparr>resp_jsonrpc = ''2.0'', resp_id = i, resp_result = Some r, resp_error = None\<rparr>"

definition makeError :: "rpc_id \<Rightarrow> int \<Rightarrow> string \<Rightarrow> JsonRpcResponse" where
  "makeError i c m =
     \<lparr>resp_jsonrpc = ''2.0'', resp_id = i, resp_result = None,
      resp_error = Some \<lparr>code = c, error_message = m\<rparr>\<rparr>"

text \<open>\<open>!id\<close>: an absent id, \<open>null\<close>, the number zero and the empty string are falsy.\<close>

fun falsy :: "rpc_id option \<Rightarrow> bool" where
  "falsy None = True"
| "falsy (Some IdNull) = True"
| "falsy (Some (IdNum n)) = (n = 0)"
| "falsy (Some (IdStr s)) = (s = [])"

definition tool_json :: "ToolDef \<Rightarrow> json" where
  "tool_json t =
     JObj [(''name'', JStr (name t)), (''description'', JStr (description t)),
           (''inputSchema'', inputSchema t)]"

definition initialize_result :: json where
  "initialize_result =
     JObj [(''protocolVersion'', JStr ''2024-11-05''),
           (''serverInfo'', JObj [(''name'', JStr ''gerrit-review''),
                                  (''version'', JStr ''1.0.0'')]),
           (''capabilities'', JObj [(''tools'', JObj [])])]"

definition text_content :: "string \<Rightarrow> json" where
  "text_content t = JArr [JObj [(''type'', JStr ''text''), (''text'', JStr t)]]"

text \<open>
  The call inside the inner \<open>try\<close>: reading \<open>p.name\<close> of an absent or \<open>null\<close>
  \<open>params\<close> throws a TypeError (worded as V8 does); \<open>p.arguments ?? {}\<close> replaces
  an absent or \<open>null\<close> value by the empty object.
\<close>

definition cannot_read :: "string \<Rightarrow> exn" where
  "cannot_read v =
     TypeError (''Cannot read properties of '' @ v @ '' (reading ''
                @ [CHR 0x27] @ ''name'' @ [CHR 0x27] @ '')'')"

definition call_tool :: "runtime \<Rightarrow> process_env \<Rightarrow> json option \<Rightarrow> string io" where
  "call_tool rt env params =
     (case params of
        None \<Rightarrow> lift (Inl (cannot_read ''undefined''))
      | Some JNull \<Rightarrow> lift (Inl (cannot_read ''null''))
      | Some p \<Rightarrow>
          handleTool rt env (getprop p ''name'')
            (case getprop p ''arguments'' of
               None \<Rightarrow> JObj []
             | Some JNull \<Rightarrow> JObj []
             | Some a \<Rightarrow> a))"

text \<open>
  \<open>handleMessage\<close> returns the requests sent to the backend and the responses
  written to standard output, one line each, in order. \<open>sendResponse\<close> serialises a
  response of strings, numbers and booleans and does not throw, so the outer
  \<open>catch\<close> (code -32603) is never entered.
\<close>

definition handleMessage ::
  "runtime \<Rightarrow> process_env \<Rightarrow> JsonRpcRequest \<Rightarrow> request list \<times> JsonRpcResponse list" where
  "handleMessage rt env msg =
     (if msg_method msg = ''notifications/initialized'' then ([], [])
      else if falsy (msg_id msg) \<and> msg_id msg \<noteq> Some (IdNum 0) then ([], [])
      else (case msg_id msg of
              None \<Rightarrow> ([], [])
            | Some i \<Rightarrow>
                if msg_method msg = ''initialize''
                  then ([], [makeResult i initialize_result])
                else if msg_method msg = ''tools/list''
                  then ([], [makeResult i (JObj [(''tools'', JArr (map tool_json TOOLS))])])
                else if msg_method msg = ''tools/call''
                  then (case call_tool rt env (msg_params msg) of
                          (t, Inr txt) \<Rightarrow>
                            (t, [makeResult i (JObj [(''content'', text_content txt)])])
                        | (t, Inl e) \<Rightarrow>
                            (t, [makeResult i
                                   (JObj [(''content'', text_content (message e)),
                                          (''isError'', JBool True)])]))
                else ([], [makeError i (- 32601)
                             (''Method not found: '' @ msg_method msg)])))"

section \<open>The agent supervisor\<close>

subsection \<open>Stream events\<close>

text \<open>
  A line that \<open>JSON.parse\<close> accepts is cast to \<open>StreamEvent\<close> unchecked; the model
  takes the parsed events to have the declared shape, every field optional. Parsing
  a line to such an event, and \<open>substring(0, 200)\<close> (which counts UTF-16 code units),
  belong to the runtime.
\<close>

record content_item =
  item_type :: "string option"
  item_text :: "string option"

record event_message =
  role :: "string option"
  content :: "content_item list option"



text \<open>What the run shows: the output channel (when there is one), the progress
  reports and the log.\<close>

record ui =
  oc :: "string option"
  reports :: "string list"
  log_lines :: "string list"
  lastStatus :: string















subsection \<open>The run\<close>

text \<open>
  The promise of \<open>invokeCursorAgent\<close> is a state and the callbacks are its steps. The
  state holds the \<open>settled\<close> flag, whether the timer is still pending, the calls of
  \<open>proc.kill\<close>, of \<open>resolve\<close> and of \<open>reject\<close> made so far, the line buffer and
  what the run shows. An event is a callback the runtime invokes: the timer, a chunk
  of standard output or of standard error, the \<open>error\<close> of the process, and its
  \<open>exit\<close> with the exit code and the seconds elapsed on the clock.
\<close>

datatype settlement = Resolve | Reject string

record run =
  settled :: bool
  timer :: bool
  kills :: nat
  settlements :: "settlement list"
  buffer :: string
  view :: ui


definition on_view :: "(ui \<Rightarrow> ui) \<Rightarrow> run \<Rightarrow> run" where
  "on_view f r = r\<lparr>view := f (view r)\<rparr>"

definition settle :: "settlement \<Rightarrow> run \<Rightarrow> run" where
  "settle fn r =
     (if settled r then r
      else r\<lparr>settled := True, timer := False, settlements := settlements r @ [fn]\<rparr>)"

text \<open>\<open>split('\n')\<close>: the pieces between the line feeds, never an empty list.\<close>

fun split :: "string \<Rightarrow> string list" where
  "split [] = [[]]"
| "split (c # cs) =
     (if c = CHR 0x0A then [] # split cs
      else (case split cs of
              [] \<Rightarrow> [[c]]
            | l # ls \<Rightarrow> (c # l) # ls))"











section \<open>A sample deployment\<close>

text \<open>Concrete environments, a runtime and arguments, on which the theorems below
  are evaluated.\<close>

definition bare_env :: process_env where
  "bare_env = [''GERRIT_URL'' \<mapsto> ''https://gerrit.example.com'']"


definition sample_body :: string where
  \<open>sample_body = MAGIC_PREFIX @ ''\<newline>{"a":1}''\<close>

definition sample_runtime :: runtime where
  \<open>sample_runtime =
     \<lparr>got = (\<lambda>r. Inr sample_body),
      json_value = (\<lambda>t. if t = ''{"a":1}'' then Some (JObj [(''a'', JNum 1)])
                         else if t = ''1'' then Some (JNum 1) else None),
      syntax_message = (\<lambda>t. ''Unexpected token''),
      stringify = (\<lambda>v. ''{ "a": 1 }''),
      base64_decode = (\<lambda>s. s)\<rparr>\<close>

definition sample_reply_args :: json where
  "sample_reply_args =
     JObj [(''changeNumber'', JNum 4711), (''filePath'', JStr ''src/a.ts''),
           (''message'', JStr ''Done''), (''inReplyTo'', JStr ''abc123''),
           (''unresolved'', JBool True)]"

definition sample_draft_args :: json where
  "sample_draft_args =
     JObj [(''changeNumber'', JStr ''4711''), (''filePath'', JStr ''/PATCHSET_LEVEL''),
           (''message'', JStr ''Looks good'')]"



section \<open>Properties of the gateway\<close>

lemma stripMagic_sample_body: \<open>stripMagic sample_body = ''{"a":1}''\<close>
  by (simp add: sample_body_def stripMagic_def MAGIC_PREFIX_def startsWith_def trim_def
      trimStart.simps trimEnd.simps white_prefix_def white_suffix_def white_space_def
      suffix_to_prefix)



lemma bind_lift_Inr [simp]: "bind_io (lift (Inr x)) f = f x"
  by (simp add: bind_io_def lift_def split: prod.splits)

lemma bind_lift_Inl [simp]: "bind_io (lift (Inl e)) f = lift (Inl e)"
  by (simp add: bind_io_def lift_def)

lemma fst_lift [simp]: "fst (lift r) = []"
  by (simp add: lift_def)

lemma fst_bind_lift [simp]: "fst (bind_io m (\<lambda>x. lift (g x))) = fst m"
  by (auto simp: bind_io_def lift_def split: prod.splits sum.splits)

lemma fst_gerritGet [simp]: "fst (gerritGet rt env p) = [gerritGet_request env p]"
  by (simp add: gerritGet_def Let_def split: sum.splits)

lemma fst_gerritGetRaw [simp]: "fst (gerritGetRaw rt env p) = [gerritGet_request env p]"
  by (simp add: gerritGetRaw_def Let_def)

lemma fst_gerritPut [simp]: "fst (gerritPut rt env p b) = [gerritPut_request env p b]"
  by (simp add: gerritPut_def Let_def split: sum.splits)



text \<open>
  Claim C7, as the code has it. Every request of \<open>gerritGet\<close>, \<open>gerritGetRaw\<close> and
  \<open>gerritPut\<close> is sent with \<open>rejectUnauthorized\<close> false, whatever the environment
  holds: certificate validation is switched off unconditionally.
\<close>

theorem gateway_never_validates:
  "map req_rejectUnauthorized (fst (gerritGet rt env path)) = [False]
   \<and> map req_rejectUnauthorized (fst (gerritGetRaw rt env path)) = [False]
   \<and> map req_rejectUnauthorized (fst (gerritPut rt env path body)) = [False]"
  by (simp add: gerritGet_request_def gerritPut_request_def)

text \<open>With nothing configured but the URL, the request of a \<open>get\<close> does not validate
  the server's certificate.\<close>

theorem unconfigured_gateway_counterexample:
  "fst (gerritGet sample_runtime bare_env ''changes/1/comments/'')
   = [\<lparr>req_method = ''GET'',
       req_url = ''https://gerrit.example.com/a/changes/1/comments/'',
       req_headers = [], req_body = None, req_cookieJar = None,
       req_rejectUnauthorized = False\<rparr>]"
  by (simp add: gerritGet_request_def gerritUrl_def gerritHeaders_def buildCookieJar_def
      bare_env_def GERRIT_URL_def GERRIT_USERNAME_def GERRIT_PASSWORD_def
      GERRIT_AUTH_COOKIE_def GERRIT_AUTH_PREFIX_def endsWith_def)

subsection \<open>The magic prefix\<close>

lemma white_prefix_json_ws: "json_ws c \<Longrightarrow> white_prefix (c # s) = Some [c]"
  unfolding json_ws_def
  by (elim disjE; simp add: white_prefix_def white_space_def)

lemma trimStart_json_ws: "json_ws c \<Longrightarrow> trimStart (c # s) = trimStart s"
  by (subst trimStart.simps) (simp add: white_prefix_json_ws)

lemma trimStart_dropWhile: "trimStart s = trimStart (dropWhile json_ws s)"
  by (induction s) (simp_all add: trimStart_json_ws)

lemma white_prefix_value_first: "value_first c \<Longrightarrow> white_prefix (c # s) = None"
  unfolding value_first_def set_simps insert_iff empty_iff
  by (elim disjE; simp add: white_prefix_def white_space_def)

lemma trimStart_value_first: "value_first c \<Longrightarrow> trimStart (c # s) = c # s"
  by (subst trimStart.simps) (simp add: white_prefix_value_first)

lemma white_suffix_json_ws: "json_ws c \<Longrightarrow> white_suffix (s @ [c]) = Some [c]"
  unfolding json_ws_def
  by (elim disjE; simp add: white_suffix_def white_space_def suffix_to_prefix)

lemma trimEnd_json_ws: "json_ws c \<Longrightarrow> trimEnd (s @ [c]) = trimEnd s"
  by (subst trimEnd.simps) (simp add: white_suffix_json_ws)

lemma trimEnd_dropWhile: "trimEnd s = trimEnd (rev (dropWhile json_ws (rev s)))"
  by (induction s rule: rev_induct) (simp_all add: trimEnd_json_ws)

lemma white_suffix_value_last: "value_last c \<Longrightarrow> white_suffix (s @ [c]) = None"
  unfolding value_last_def set_simps insert_iff empty_iff
  by (elim disjE; simp add: white_suffix_def white_space_def suffix_to_prefix)

lemma trimEnd_value_last: "value_last c \<Longrightarrow> trimEnd (s @ [c]) = s @ [c]"
  by (subst trimEnd.simps) (simp add: white_suffix_value_last)


lemma value_first_not_ws: "value_first c \<Longrightarrow> \<not> json_ws c"
  unfolding value_first_def set_simps insert_iff empty_iff
  by (elim disjE; simp add: json_ws_def)

lemma value_last_not_ws: "value_last c \<Longrightarrow> \<not> json_ws c"
  unfolding value_last_def set_simps insert_iff empty_iff
  by (elim disjE; simp add: json_ws_def)

lemma json_trim_fixed:
  assumes "t \<noteq> []" and "\<not> json_ws (hd t)" and "\<not> json_ws (last t)"
  shows "json_trim t = t"
proof -
  from assms(1,2) have "dropWhile json_ws t = t"
    by (cases t) simp_all
  moreover from assms(1,3) have "dropWhile json_ws (rev t) = rev t"
    by (cases t rule: rev_cases) simp_all
  ultimately show ?thesis
    by (simp add: json_trim_def)
qed

lemma trim_json_value:
  assumes "json_trim s \<noteq> []"
    and "value_first (hd (json_trim s))"
    and "value_last (last (json_trim s))"
  shows "trim s = json_trim s"
proof -
  define u where "u = dropWhile json_ws s"
  define t where "t = rev (dropWhile json_ws (rev u))"
  have t: "json_trim s = t"
    by (simp add: t_def u_def json_trim_def)
  with assms have tne: "t \<noteq> []" and first: "value_first (hd t)"
    and last: "value_last (last t)"
    by simp_all
  have u: "u = t @ rev (takeWhile json_ws (rev u))"
    unfolding t_def by (metis rev_append rev_rev_ident takeWhile_dropWhile_id)
  from tne obtain c r where cr: "t = c # r"
    by (cases t) simp_all
  with first have "value_first c"
    by simp
  moreover from u cr have "u = c # (r @ rev (takeWhile json_ws (rev u)))"
    by simp
  ultimately have "trimStart u = u"
    by (metis trimStart_value_first)
  then have "trimStart s = u"
    using trimStart_dropWhile [of s] by (simp add: u_def)
  moreover have "trimEnd u = trimEnd t"
    using trimEnd_dropWhile [of u] by (simp add: t_def)
  moreover from tne last have "trimEnd t = t"
    using trimEnd_value_last [of "last t" "butlast t"] by simp
  ultimately show ?thesis
    by (simp add: trim_def t)
qed

text \<open>
  Claim C8, as the code has it. Stripping the magic prefix from the prefix followed by
  a line feed and \<open>{"a":1}\<close> yields the text \<open>{"a":1}\<close>, which parses to what the
  grammar makes of it. For a body that does not start with the prefix and that
  \<open>JSON.parse\<close> accepts, the stripped body is the body without its surrounding
  JSON white space and parses to the same value.
\<close>

theorem stripMagic_keeps_parsed_value:
  \<open>stripMagic (MAGIC_PREFIX @ ''\<newline>{"a":1}'') = ''{"a":1}''
   \<and> (json_value rt ''{"a":1}'' = Some w \<longrightarrow>
        JSON_parse rt (stripMagic (MAGIC_PREFIX @ ''\<newline>{"a":1}'')) = Inr w)
   \<and> (\<not> startsWith body MAGIC_PREFIX \<longrightarrow>
        JSON_parse rt body = Inr v \<longrightarrow>
        stripMagic body = json_trim body \<and> JSON_parse rt (stripMagic body) = Inr v)\<close>
proof (intro conjI impI)
  show s: \<open>stripMagic (MAGIC_PREFIX @ ''\<newline>{"a":1}'') = ''{"a":1}''\<close>
    using stripMagic_sample_body by (simp add: sample_body_def)
  assume \<open>json_value rt ''{"a":1}'' = Some w\<close>
  then show \<open>JSON_parse rt (stripMagic (MAGIC_PREFIX @ ''\<newline>{"a":1}'')) = Inr w\<close>
    unfolding s
    by (simp add: JSON_parse_def json_trim_def json_ws_def value_first_def value_last_def)
next
  assume np: "\<not> startsWith body MAGIC_PREFIX" and ok: "JSON_parse rt body = Inr v"
  from ok have t: "json_trim body \<noteq> []" "value_first (hd (json_trim body))"
    "value_last (last (json_trim body))" "json_value rt (json_trim body) = Some v"
    by (auto simp: JSON_parse_def Let_def split: if_splits option.splits)
  then have "trim body = json_trim body"
    by (simp add: trim_json_value)
  with np show s: "stripMagic body = json_trim body"
    by (simp add: stripMagic_def)
  from t have "json_trim (json_trim body) = json_trim body"
    by (simp add: json_trim_fixed value_first_not_ws value_last_not_ws)
  with t s show "JSON_parse rt (stripMagic body) = Inr v"
    by (simp add: JSON_parse_def)
qed

theorem stripMagic_keeps_parsed_value_witness:
  \<open>JSON_parse sample_runtime (stripMagic '' {"a":1}  '') = Inr (JObj [(''a'', JNum 1)])\<close>
proof -
  have \<open>JSON_parse sample_runtime '' {"a":1}  '' = Inr (JObj [(''a'', JNum 1)])\<close>
    by (simp add: JSON_parse_def json_trim_def json_ws_def value_first_def value_last_def
        sample_runtime_def)
  moreover have \<open>\<not> startsWith '' {"a":1}  '' MAGIC_PREFIX\<close>
    by (simp add: startsWith_def MAGIC_PREFIX_def)
  ultimately show ?thesis
    using stripMagic_keeps_parsed_value
      [of sample_runtime \<open>JNull\<close> \<open>'' {"a":1}  ''\<close> \<open>JObj [(''a'', JNum 1)]\<close>]
    by blast
qed


text \<open>
  A body of a vertical tab and the digit 1 does not start with the prefix and is no
  JSON text; \<open>trim\<close> removes the vertical tab, and the stripped body parses to the
  number 1.
\<close>

theorem vertical_tab_counterexample:
  "\<not> startsWith [CHR 0x0B, CHR ''1''] MAGIC_PREFIX
   \<and> stripMagic [CHR 0x0B, CHR ''1''] = ''1''
   \<and> JSON_parse sample_runtime [CHR 0x0B, CHR ''1''] = Inl (SyntaxError ''Unexpected token'')
   \<and> JSON_parse sample_runtime (stripMagic [CHR 0x0B, CHR ''1'']) = Inr (JNum 1)"
proof -
  have s: "stripMagic [CHR 0x0B, CHR ''1''] = ''1''"
    by (simp add: stripMagic_def MAGIC_PREFIX_def startsWith_def trim_def
      trimStart.simps trimEnd.simps white_prefix_def white_suffix_def white_space_def
      suffix_to_prefix)
  show ?thesis
    unfolding s
    by (simp add: startsWith_def MAGIC_PREFIX_def JSON_parse_def json_trim_def json_ws_def
        value_first_def value_last_def sample_runtime_def)
qed

section \<open>Properties of the tool handlers\<close>

lemma fst_handleReplyToComment:
  "fst (handleReplyToComment rt env args) =
     (case (String_js (getprop args ''changeNumber''), String_js (getprop args ''filePath''),
            String_js (getprop args ''message''), String_js (getprop args ''inReplyTo'')) of
        (Inr cn, Inr path, Inr msg, Inr irt) \<Rightarrow>
          [gerritPut_request env (''changes/'' @ cn @ ''/revisions/current/drafts'')
             (JObj [(''path'', JStr path), (''message'', JStr msg),
                    (''in_reply_to'', JStr irt), (''unresolved'', JBool False)])]
      | _ \<Rightarrow> [])"
  by (simp add: handleReplyToComment_def reply_body_def split: sum.splits)

text \<open>
  Claim C5. Every request \<open>gerrit_reply_to_comment\<close> sends is a PUT to the drafts of
  the change whose body is \<open>path\<close>, \<open>message\<close> and \<open>in_reply_to\<close>, the strings of the
  arguments \<open>filePath\<close>, \<open>message\<close> and \<open>inReplyTo\<close>, and \<open>unresolved\<close> false, whatever
  the arguments are; it sends that one request exactly when the four arguments
  convert to strings.
\<close>

theorem reply_is_resolved:
  "(\<forall>r \<in> set (fst (handleReplyToComment rt env args)).
      \<exists>cn path msg irt.
        String_js (getprop args ''changeNumber'') = Inr cn
        \<and> String_js (getprop args ''filePath'') = Inr path
        \<and> String_js (getprop args ''message'') = Inr msg
        \<and> String_js (getprop args ''inReplyTo'') = Inr irt
        \<and> req_method r = ''PUT''
        \<and> req_url r = gerritUrl env (''changes/'' @ cn @ ''/revisions/current/drafts'')
        \<and> req_body r = Some (JObj [(''path'', JStr path), (''message'', JStr msg),
                                    (''in_reply_to'', JStr irt),
                                    (''unresolved'', JBool False)]))
   \<and> (length (fst (handleReplyToComment rt env args)) = 1) =
       ((\<exists>cn. String_js (getprop args ''changeNumber'') = Inr cn)
        \<and> (\<exists>path. String_js (getprop args ''filePath'') = Inr path)
        \<and> (\<exists>msg. String_js (getprop args ''message'') = Inr msg)
        \<and> (\<exists>irt. String_js (getprop args ''inReplyTo'') = Inr irt))"
  by (auto simp: fst_handleReplyToComment gerritPut_request_def split: sum.splits)

theorem reply_is_resolved_witness:
  "map req_body (fst (handleReplyToComment sample_runtime bare_env sample_reply_args))
   = [Some (JObj [(''path'', JStr ''src/a.ts''), (''message'', JStr ''Done''),
                  (''in_reply_to'', JStr ''abc123''), (''unresolved'', JBool False)])]"
  using reply_is_resolved [of sample_runtime bare_env sample_reply_args]
  by (simp add: sample_reply_args_def String_js_def digits.simps digit_char_def
      handleReplyToComment_def reply_body_def gerritPut_request_def)

lemma fst_handlePostDraft:
  "fst (handlePostDraft rt env args) =
     (case (String_js (getprop args ''changeNumber''), String_js (getprop args ''filePath''),
            String_js (getprop args ''message'')) of
        (Inr cn, Inr path, Inr msg) \<Rightarrow>
          [gerritPut_request env (''changes/'' @ cn @ ''/revisions/current/drafts'')
             (postDraft_body args path msg)]
      | _ \<Rightarrow> [])"
  by (simp add: handlePostDraft_def split: sum.splits)

text \<open>
  Claim C6. Every request \<open>gerrit_post_draft_comment\<close> sends is a PUT to the drafts
  of the change whose body has \<open>path\<close> and \<open>message\<close>, the strings of the arguments;
  \<open>unresolved\<close>, true unless the argument \<open>unresolved\<close> is exactly \<open>false\<close>; and
  \<open>line\<close> only when the argument \<open>line\<close> is a number. With \<open>filePath\<close> the string
  \<open>/PATCHSET_LEVEL\<close> and no \<open>line\<close> argument the body is those three fields, the
  path being \<open>/PATCHSET_LEVEL\<close>.
\<close>

theorem post_draft_body:
  "(\<forall>r \<in> set (fst (handlePostDraft rt env args)).
      \<exists>cn path msg b.
        String_js (getprop args ''changeNumber'') = Inr cn
        \<and> String_js (getprop args ''filePath'') = Inr path
        \<and> String_js (getprop args ''message'') = Inr msg
        \<and> req_method r = ''PUT''
        \<and> req_url r = gerritUrl env (''changes/'' @ cn @ ''/revisions/current/drafts'')
        \<and> req_body r = Some b
        \<and> getprop b ''path'' = Some (JStr path)
        \<and> getprop b ''message'' = Some (JStr msg)
        \<and> getprop b ''unresolved''
            = Some (JBool (getprop args ''unresolved'' \<noteq> Some (JBool False)))
        \<and> getprop b ''line''
            = (case getprop args ''line'' of Some (JNum n) \<Rightarrow> Some (JNum n) | _ \<Rightarrow> None)
        \<and> (getprop args ''filePath'' = Some (JStr ''/PATCHSET_LEVEL'')
             \<and> getprop args ''line'' = None
             \<longrightarrow> b = JObj [(''path'', JStr ''/PATCHSET_LEVEL''), (''message'', JStr msg),
                          (''unresolved'',
                           JBool (getprop args ''unresolved'' \<noteq> Some (JBool False)))]))
   \<and> (length (fst (handlePostDraft rt env args)) = 1) =
       ((\<exists>cn. String_js (getprop args ''changeNumber'') = Inr cn)
        \<and> (\<exists>path. String_js (getprop args ''filePath'') = Inr path)
        \<and> (\<exists>msg. String_js (getprop args ''message'') = Inr msg))"
  by (auto simp: fst_handlePostDraft gerritPut_request_def postDraft_body_def String_js_def
      split: sum.splits option.splits json.splits)

theorem post_draft_body_witness:
  "map req_body (fst (handlePostDraft sample_runtime bare_env sample_draft_args))
   = [Some (JObj [(''path'', JStr ''/PATCHSET_LEVEL''), (''message'', JStr ''Looks good''),
                  (''unresolved'', JBool True)])]"
  using post_draft_body [of sample_runtime bare_env sample_draft_args]
  by (simp add: sample_draft_args_def String_js_def
      handlePostDraft_def postDraft_body_def gerritPut_request_def)
















section \<open>Properties of the JSON-RPC server\<close>

text \<open>
  Claim C1, as the code has it. \<open>handleMessage\<close> writes exactly one response when
  the method is not \<open>notifications/initialized\<close> and the id is a number (zero
  included) or a non-empty string, and writes nothing otherwise: nothing for an absent
  id, for the id \<open>null\<close> and for the empty string. The response carries the id of the
  request.
\<close>

theorem response_iff_answerable_id:
  "length (snd (handleMessage rt env msg)) =
     (if msg_method msg \<noteq> ''notifications/initialized''
         \<and> ((\<exists>n. msg_id msg = Some (IdNum n))
              \<or> (\<exists>s. s \<noteq> [] \<and> msg_id msg = Some (IdStr s)))
      then 1 else 0)
   \<and> (\<forall>r \<in> set (snd (handleMessage rt env msg)). Some (resp_id r) = msg_id msg)"
proof (cases "msg_id msg")
  case None
  then show ?thesis
    by (simp add: handleMessage_def)
next
  case (Some i)
  then show ?thesis
    by (cases i)
      (auto simp: handleMessage_def makeResult_def makeError_def
        split: prod.splits sum.splits)
qed

text \<open>An \<open>initialize\<close> request with the id \<open>null\<close> gets no response.\<close>

theorem null_id_counterexample:
  "snd (handleMessage sample_runtime bare_env
          \<lparr>msg_jsonrpc = ''2.0'', msg_id = Some IdNull, msg_method = ''initialize'',
           msg_params = None\<rparr>) = []"
  by (simp add: handleMessage_def)

theorem response_iff_answerable_id_witness:
  "snd (handleMessage sample_runtime bare_env
          \<lparr>msg_jsonrpc = ''2.0'', msg_id = Some (IdNum 0), msg_method = ''initialize'',
           msg_params = None\<rparr>) = [makeResult (IdNum 0) initialize_result]
   \<and> snd (handleMessage sample_runtime bare_env
          \<lparr>msg_jsonrpc = ''2.0'', msg_id = None, msg_method = ''initialize'',
           msg_params = None\<rparr>) = []"
  using response_iff_answerable_id [of sample_runtime bare_env
      "\<lparr>msg_jsonrpc = ''2.0'', msg_id = Some (IdNum 0), msg_method = ''initialize'',
        msg_params = None\<rparr>"]
  by (simp add: handleMessage_def)

text \<open>
  Claim C3, as the code has it. A \<open>tools/call\<close> request never gets a JSON-RPC error
  member. When its id is a number or a non-empty string and the tool call throws, the
  one response written is a result whose payload has the message of the error as a
  text content item and \<open>isError\<close> true.
\<close>

theorem tool_failure_is_result:
  "(msg_method msg = ''tools/call'' \<longrightarrow>
      (\<forall>r \<in> set (snd (handleMessage rt env msg)). resp_error r = None))
   \<and> (msg_method msg = ''tools/call'' \<longrightarrow>
        (msg_id msg = Some (IdNum n) \<or> (msg_id msg = Some (IdStr s) \<and> s \<noteq> [])) \<longrightarrow>
        snd (call_tool rt env (msg_params msg)) = Inl e \<longrightarrow>
        snd (handleMessage rt env msg)
        = [\<lparr>resp_jsonrpc = ''2.0'', resp_id = the (msg_id msg),
            resp_result = Some (JObj [(''content'',
                                       JArr [JObj [(''type'', JStr ''text''),
                                                   (''text'', JStr (message e))]]),
                                      (''isError'', JBool True)]),
            resp_error = None\<rparr>])"
  by (cases "msg_id msg")
    (auto simp: handleMessage_def makeResult_def text_content_def
      split: prod.splits sum.splits rpc_id.splits)

text \<open>A \<open>tools/call\<close> of an unknown tool with the id \<open>null\<close>: the call throws, and
  nothing is written.\<close>

theorem tool_failure_unanswered_counterexample:
  "handleMessage sample_runtime bare_env
     \<lparr>msg_jsonrpc = ''2.0'', msg_id = Some IdNull, msg_method = ''tools/call'',
      msg_params = Some (JObj [(''name'', JStr ''no_such_tool'')])\<rparr> = ([], [])
   \<and> call_tool sample_runtime bare_env (Some (JObj [(''name'', JStr ''no_such_tool'')]))
     = ([], Inl (Error ''Unknown tool: no_such_tool''))"
  by (simp add: handleMessage_def call_tool_def handleTool_def String_js_def bind_io_def
      lift_def)

theorem tool_failure_is_result_witness:
  "snd (handleMessage sample_runtime bare_env
     \<lparr>msg_jsonrpc = ''2.0'', msg_id = Some (IdNum 7), msg_method = ''tools/call'',
      msg_params = Some (JObj [(''name'', JStr ''no_such_tool'')])\<rparr>)
   = [\<lparr>resp_jsonrpc = ''2.0'', resp_id = IdNum 7,
       resp_result = Some (JObj [(''content'',
                                  JArr [JObj [(''type'', JStr ''text''),
                                              (''text'', JStr ''Unknown tool: no_such_tool'')]]),
                                 (''isError'', JBool True)]),
       resp_error = None\<rparr>]"
  using tool_failure_is_result [of
     "\<lparr>msg_jsonrpc = ''2.0'', msg_id = Some (IdNum 7), msg_method = ''tools/call'',
      msg_params = Some (JObj [(''name'', JStr ''no_such_tool'')])\<rparr>"
     sample_runtime bare_env 7 "[]" "Error ''Unknown tool: no_such_tool''"]
  by (simp add: call_tool_def handleTool_def String_js_def bind_io_def lift_def)

section \<open>Properties of the agent supervisor\<close>

lemma on_view_fields [simp]:
  "settled (on_view f r) = settled r" "timer (on_view f r) = timer r"
  "kills (on_view f r) = kills r" "settlements (on_view f r) = settlements r"
  "buffer (on_view f r) = buffer r" "view (on_view f r) = f (view r)"
  by (simp_all add: on_view_def)

lemma settle_fields [simp]:
  "settled (settle fn r)"
  "kills (settle fn r) = kills r" "buffer (settle fn r) = buffer r"
  "view (settle fn r) = view r"
  "settlements (settle fn r) = (if settled r then settlements r else settlements r @ [fn])"
  by (simp_all add: settle_def)













lemma split_not_Nil [simp]: "split s \<noteq> []"
  by (induction s) (simp_all split: list.splits)














end
